theory Spec2Isabelle
  imports Complex_Main "HOL-Library.Sublist"
begin

section \<open>The multi-modal relevancy evaluator\<close>

text \<open>
  A shallow embedding of \<^verbatim>\<open>llama_index/evaluation/multi_modal/relevancy.py\<close>:
  the class \<^verbatim>\<open>MultiModalRelevancyEvaluator\<close> with its methods
  \<^verbatim>\<open>_get_prompts\<close>, \<^verbatim>\<open>_update_prompts\<close>, \<^verbatim>\<open>evaluate\<close> and \<^verbatim>\<open>aevaluate\<close>.

  The evaluator talks to four things that live outside the file: the prompt template
  (\<^verbatim>\<open>format\<close>), the directory reader (\<^verbatim>\<open>SimpleDirectoryReader(...).load_data()\<close>),
  the node parser (\<^verbatim>\<open>get_nodes_from_documents\<close>) and the multi-modal model
  (\<^verbatim>\<open>complete\<close>, \<^verbatim>\<open>acomplete\<close>). They are parameters of the embedding. Formatting a
  template is a function of the template and the keyword arguments; the other three read
  and change the outside world (files, a remote model), so they take a world of type
  \<open>'w\<close> and return the next one. Each of them may raise, and what it raises passes
  through the evaluator unchanged.
\<close>

subsection \<open>Errors and results\<close>

text \<open>
  \<^verbatim>\<open>ValueError\<close> is what the evaluator raises itself. \<^verbatim>\<open>UnboundLocalError\<close> is what
  Python raises when a local variable is read before any assignment to it; it carries the
  name of the variable. \<^verbatim>\<open>TypeError\<close> is what Python raises when a call gives a
  parameter two values; it carries the name of the parameter.
  \<^verbatim>\<open>UpstreamError\<close> stands for whatever else a collaborator raises.
\<close>

datatype error =
    ValueError string | UnboundLocalError string | TypeError string | UpstreamError string

text \<open>
  The five fields of \<^verbatim>\<open>EvaluationResult\<close> that the evaluator sets. The score is one of
  the two float literals \<^verbatim>\<open>1.0\<close> and \<^verbatim>\<open>0.0\<close>, both exact, read here as reals.
\<close>

record EvaluationResult =
  query :: string
  response :: string
  passing :: bool
  score :: real
  feedback :: string

subsection \<open>Collaborators, their calls and the state\<close>

text \<open>
  The model. What \<open>complete\<close> and \<open>acomplete\<close> return is the text of the
  response object, \<^verbatim>\<open>str(response_obj)\<close> of lines 132 and 184.
\<close>

record ('n, 'w) MultiModalLLM =
  complete :: "string \<Rightarrow> 'n list \<Rightarrow> 'w \<Rightarrow> (error + string) \<times> 'w"
  acomplete :: "string \<Rightarrow> 'n list \<Rightarrow> 'w \<Rightarrow> (error + string) \<times> 'w"

text \<open>
  \<open>format\<close> is \<^verbatim>\<open>BasePromptTemplate.format(**kwargs)\<close>, the keyword arguments in
  the order they are written. \<open>load_data\<close> is
  \<^verbatim>\<open>SimpleDirectoryReader(input_files=[path]).load_data()\<close> for one path, and
  \<open>get_nodes_from_documents\<close> is
  \<^verbatim>\<open>SimpleNodeParser.from_defaults().get_nodes_from_documents(docs)\<close>.
\<close>

record ('t, 'd, 'n, 'w) collaborators =
  format :: "'t \<Rightarrow> (string \<times> string) list \<Rightarrow> error + string"
  load_data :: "string \<Rightarrow> 'w \<Rightarrow> (error + 'd list) \<times> 'w"
  get_nodes_from_documents :: "'d list \<Rightarrow> 'w \<Rightarrow> (error + 'n list) \<times> 'w"

text \<open>
  The calls the evaluator makes, in the order it makes them: each with its arguments and
  with what came back, a value or the error raised.
\<close>

datatype ('t, 'd, 'n) call =
    Format 't "(string \<times> string) list" "error + string"
  | LoadData string "error + 'd list"
  | GetNodes "'d list" "error + 'n list"
  | Complete string "'n list" "error + string"
  | AComplete string "'n list" "error + string"

record ('t, 'd, 'n, 'w) state =
  world :: 'w
  calls :: "('t, 'd, 'n) call list"

text \<open>The fields of the evaluator object (the source names them with a leading underscore).\<close>

record ('t, 'n, 'w) MultiModalRelevancyEvaluator =
  multi_modal_llm :: "('n, 'w) MultiModalLLM"
  raise_error :: bool
  eval_template :: 't
  refine_template :: 't

text \<open>Each call is logged as it comes back, whether it returns or raises.\<close>

definition call_format ::
  "('t, 'd, 'n, 'w) collaborators \<Rightarrow> 't \<Rightarrow> (string \<times> string) list \<Rightarrow>
   ('t, 'd, 'n, 'w) state \<Rightarrow> (error + string) \<times> ('t, 'd, 'n, 'w) state" where
  "call_format coll tmpl kwargs s =
     (let r = format coll tmpl kwargs
      in (r, \<lparr>world = world s, calls = calls s @ [Format tmpl kwargs r]\<rparr>))"

definition call_load_data ::
  "('t, 'd, 'n, 'w) collaborators \<Rightarrow> string \<Rightarrow>
   ('t, 'd, 'n, 'w) state \<Rightarrow> (error + 'd list) \<times> ('t, 'd, 'n, 'w) state" where
  "call_load_data coll path s =
     (case load_data coll path (world s) of
        (r, w') \<Rightarrow> (r, \<lparr>world = w', calls = calls s @ [LoadData path r]\<rparr>))"

definition call_get_nodes ::
  "('t, 'd, 'n, 'w) collaborators \<Rightarrow> 'd list \<Rightarrow>
   ('t, 'd, 'n, 'w) state \<Rightarrow> (error + 'n list) \<times> ('t, 'd, 'n, 'w) state" where
  "call_get_nodes coll docs s =
     (case get_nodes_from_documents coll docs (world s) of
        (r, w') \<Rightarrow> (r, \<lparr>world = w', calls = calls s @ [GetNodes docs r]\<rparr>))"

definition call_complete ::
  "('n, 'w) MultiModalLLM \<Rightarrow> string \<Rightarrow> 'n list \<Rightarrow>
   ('t, 'd, 'n, 'w) state \<Rightarrow> (error + string) \<times> ('t, 'd, 'n, 'w) state" where
  "call_complete llm prompt nodes s =
     (case complete llm prompt nodes (world s) of
        (r, w') \<Rightarrow> (r, \<lparr>world = w', calls = calls s @ [Complete prompt nodes r]\<rparr>))"

definition call_acomplete ::
  "('n, 'w) MultiModalLLM \<Rightarrow> string \<Rightarrow> 'n list \<Rightarrow>
   ('t, 'd, 'n, 'w) state \<Rightarrow> (error + string) \<times> ('t, 'd, 'n, 'w) state" where
  "call_acomplete llm prompt nodes s =
     (case acomplete llm prompt nodes (world s) of
        (r, w') \<Rightarrow> (r, \<lparr>world = w', calls = calls s @ [AComplete prompt nodes r]\<rparr>))"

subsection \<open>Strings\<close>

text \<open>
  \<^verbatim>\<open>sep.join(xs)\<close>: the items in order, the separator before every item but the first.
\<close>

definition join :: "string \<Rightarrow> string list \<Rightarrow> string" where
  "join sep xs =
     (case xs of
        [] \<Rightarrow> []
      | x # rest \<Rightarrow> x @ concat (map (\<lambda>item. sep @ item) rest))"

text \<open>
  \<^verbatim>\<open>str.lower()\<close>. A text is its UTF-8 bytes here, and the letters \<^verbatim>\<open>A\<close> to \<^verbatim>\<open>Z\<close>
  go to \<^verbatim>\<open>a\<close> to \<^verbatim>\<open>z\<close>. Python lowers letters beyond ASCII as well, but none of
  them becomes \<^verbatim>\<open>y\<close>, \<^verbatim>\<open>e\<close> or \<^verbatim>\<open>s\<close>, so the test for \<^verbatim>\<open>"yes"\<close> in the
  lowered text is the same.
\<close>

definition lower_char :: "char \<Rightarrow> char" where
  "lower_char c =
     (case map_of (zip ''ABCDEFGHIJKLMNOPQRSTUVWXYZ'' ''abcdefghijklmnopqrstuvwxyz'') c of
        Some l \<Rightarrow> l
      | None \<Rightarrow> c)"

definition lower :: "string \<Rightarrow> string" where
  "lower s = map lower_char s"

subsection \<open>The prompt accessors\<close>

text \<open>\<^verbatim>\<open>_get_prompts\<close> (lines 83-88): a dictionary with the two templates.\<close>

definition get_prompts ::
  "('t, 'n, 'w) MultiModalRelevancyEvaluator \<Rightarrow> (string \<rightharpoonup> 't)" where
  "get_prompts self =
     [''eval_template'' \<mapsto> eval_template self, ''refine_template'' \<mapsto> refine_template self]"

text \<open>
  \<^verbatim>\<open>_update_prompts\<close> (lines 90-95): two tests in sequence, each assigning one field
  when its key is in the dictionary. The method returns nothing; the model returns the
  updated object.
\<close>

definition update_prompts ::
  "('t, 'n, 'w) MultiModalRelevancyEvaluator \<Rightarrow> (string \<rightharpoonup> 't) \<Rightarrow>
   ('t, 'n, 'w) MultiModalRelevancyEvaluator" where
  "update_prompts self prompts =
     (let self1 = (case prompts ''eval_template'' of
                     Some t \<Rightarrow> self\<lparr>eval_template := t\<rparr>
                   | None \<Rightarrow> self)
      in (case prompts ''refine_template'' of
            Some t \<Rightarrow> self1\<lparr>refine_template := t\<rparr>
          | None \<Rightarrow> self1))"

subsection \<open>evaluate and aevaluate\<close>

text \<open>
  The loop of lines 120-123 (and 172-175): every path is read in turn and its documents
  are appended to \<^verbatim>\<open>image_documents\<close>. A reader that raises ends the loop.
\<close>

fun load_image_documents ::
  "('t, 'd, 'n, 'w) collaborators \<Rightarrow> string list \<Rightarrow> 'd list \<Rightarrow>
   ('t, 'd, 'n, 'w) state \<Rightarrow> (error + 'd list) \<times> ('t, 'd, 'n, 'w) state" where
  "load_image_documents coll [] image_documents s = (Inr image_documents, s)"
| "load_image_documents coll (image_path # rest) image_documents s =
     (case call_load_data coll image_path s of
        (Inl e, s') \<Rightarrow> (Inl e, s')
      | (Inr docs, s') \<Rightarrow> load_image_documents coll rest (image_documents @ docs) s')"

text \<open>
  \<^verbatim>\<open>evaluate\<close> (lines 97-147). The arguments that default to \<^verbatim>\<open>None\<close> are options.
  \<^verbatim>\<open>if image_paths:\<close> is taken for a list with at least one path, and not for
  \<^verbatim>\<open>None\<close> or the empty list. The local variable \<^verbatim>\<open>image_nodes\<close> is assigned in that
  branch only (line 125): it is an option, \<open>None\<close> while unassigned, and reading it
  unassigned for the call of line 127 raises \<^verbatim>\<open>UnboundLocalError\<close> before the model is
  called. \<^verbatim>\<open>image_urls\<close> is never read, and \<^verbatim>\<open>kwargs\<close> is deleted on line 107.
\<close>

definition evaluate ::
  "('t, 'n, 'w) MultiModalRelevancyEvaluator \<Rightarrow> ('t, 'd, 'n, 'w) collaborators \<Rightarrow>
   string option \<Rightarrow> string option \<Rightarrow> string list option \<Rightarrow>
   string list option \<Rightarrow> string list option \<Rightarrow> (string \<times> 'v) list \<Rightarrow>
   ('t, 'd, 'n, 'w) state \<Rightarrow> (error + EvaluationResult) \<times> ('t, 'd, 'n, 'w) state" where
  "evaluate self coll query_arg response_arg contexts image_paths image_urls kwargs s =
     (case (query_arg, contexts, response_arg) of
        (Some query_str, Some ctxs, Some response_str) \<Rightarrow>
          (let context_str = join ''\<newline>\<newline>'' ctxs;
               evaluation_query_str =
                 ''Question: '' @ query_str @ ''\<newline>Response: '' @ response_str
           in case call_format coll (eval_template self)
                     [(''context_str'', context_str), (''query_str'', evaluation_query_str)] s of
                (Inl e, s1) \<Rightarrow> (Inl e, s1)
              | (Inr fmt_prompt, s1) \<Rightarrow>
                  (case (case image_paths of
                           Some (p # ps) \<Rightarrow>
                             (case load_image_documents coll (p # ps) [] s1 of
                                (Inl e, s2) \<Rightarrow> (Inl e, s2)
                              | (Inr image_documents, s2) \<Rightarrow>
                                  (case call_get_nodes coll image_documents s2 of
                                     (Inl e, s3) \<Rightarrow> (Inl e, s3)
                                   | (Inr nodes, s3) \<Rightarrow> (Inr (Some nodes), s3)))
                         | _ \<Rightarrow> (Inr None, s1)) of
                     (Inl e, s3) \<Rightarrow> (Inl e, s3)
                   | (Inr None, s3) \<Rightarrow> (Inl (UnboundLocalError ''image_nodes''), s3)
                   | (Inr (Some image_nodes), s3) \<Rightarrow>
                       (case call_complete (multi_modal_llm self) fmt_prompt image_nodes s3 of
                          (Inl e, s4) \<Rightarrow> (Inl e, s4)
                        | (Inr raw_response_txt, s4) \<Rightarrow>
                            (case (if sublist ''yes'' (lower raw_response_txt) then Inr True
                                   else if raise_error self
                                        then Inl (ValueError ''The response is invalid'')
                                        else Inr False) of
                               Inl e \<Rightarrow> (Inl e, s4)
                             | Inr passing_v \<Rightarrow>
                                 (Inr \<lparr>query = query_str,
                                       response = response_str,
                                       passing = passing_v,
                                       score = (if passing_v then 1 else 0),
                                       feedback = raw_response_txt\<rparr>, s4)))))
      | _ \<Rightarrow> (Inl (ValueError ''query, contexts, and response must be provided''), s))"

text \<open>
  \<^verbatim>\<open>aevaluate\<close> (lines 149-199): the same text, with \<^verbatim>\<open>await ... acomplete\<close> on
  line 179 where \<^verbatim>\<open>evaluate\<close> has \<^verbatim>\<open>complete\<close>. The model is of one coroutine run
  to its end.
\<close>

definition aevaluate ::
  "('t, 'n, 'w) MultiModalRelevancyEvaluator \<Rightarrow> ('t, 'd, 'n, 'w) collaborators \<Rightarrow>
   string option \<Rightarrow> string option \<Rightarrow> string list option \<Rightarrow>
   string list option \<Rightarrow> string list option \<Rightarrow> (string \<times> 'v) list \<Rightarrow>
   ('t, 'd, 'n, 'w) state \<Rightarrow> (error + EvaluationResult) \<times> ('t, 'd, 'n, 'w) state" where
  "aevaluate self coll query_arg response_arg contexts image_paths image_urls kwargs s =
     (case (query_arg, contexts, response_arg) of
        (Some query_str, Some ctxs, Some response_str) \<Rightarrow>
          (let context_str = join ''\<newline>\<newline>'' ctxs;
               evaluation_query_str =
                 ''Question: '' @ query_str @ ''\<newline>Response: '' @ response_str
           in case call_format coll (eval_template self)
                     [(''context_str'', context_str), (''query_str'', evaluation_query_str)] s of
                (Inl e, s1) \<Rightarrow> (Inl e, s1)
              | (Inr fmt_prompt, s1) \<Rightarrow>
                  (case (case image_paths of
                           Some (p # ps) \<Rightarrow>
                             (case load_image_documents coll (p # ps) [] s1 of
                                (Inl e, s2) \<Rightarrow> (Inl e, s2)
                              | (Inr image_documents, s2) \<Rightarrow>
                                  (case call_get_nodes coll image_documents s2 of
                                     (Inl e, s3) \<Rightarrow> (Inl e, s3)
                                   | (Inr nodes, s3) \<Rightarrow> (Inr (Some nodes), s3)))
                         | _ \<Rightarrow> (Inr None, s1)) of
                     (Inl e, s3) \<Rightarrow> (Inl e, s3)
                   | (Inr None, s3) \<Rightarrow> (Inl (UnboundLocalError ''image_nodes''), s3)
                   | (Inr (Some image_nodes), s3) \<Rightarrow>
                       (case call_acomplete (multi_modal_llm self) fmt_prompt image_nodes s3 of
                          (Inl e, s4) \<Rightarrow> (Inl e, s4)
                        | (Inr raw_response_txt, s4) \<Rightarrow>
                            (case (if sublist ''yes'' (lower raw_response_txt) then Inr True
                                   else if raise_error self
                                        then Inl (ValueError ''The response is invalid'')
                                        else Inr False) of
                               Inl e \<Rightarrow> (Inl e, s4)
                             | Inr passing_v \<Rightarrow>
                                 (Inr \<lparr>query = query_str,
                                       response = response_str,
                                       passing = passing_v,
                                       score = (if passing_v then 1 else 0),
                                       feedback = raw_response_txt\<rparr>, s4)))))
      | _ \<Rightarrow> (Inl (ValueError ''query, contexts, and response must be provided''), s))"

subsection \<open>Calling the methods\<close>

text \<open>
  The call \<^verbatim>\<open>evaluator.evaluate(query=..., response=..., contexts=..., image_paths=...,
  image_urls=..., **kwargs)\<close> as Python binds it: the five parameters are passed by
  keyword and \<^verbatim>\<open>kwargs\<close> holds the keywords given besides them. \<^verbatim>\<open>self\<close> is bound
  to the evaluator by the method call. A further keyword with the name of \<^verbatim>\<open>self\<close> or
  of one of the five parameters gives that parameter a second value, and Python raises
  \<^verbatim>\<open>TypeError\<close> (\<^verbatim>\<open>got multiple values for argument\<close>) for the first such keyword,
  before the body of the method runs. Every other keyword lands in the \<^verbatim>\<open>**kwargs\<close> of
  the signature (lines 104 and 156). An \<^verbatim>\<open>async def\<close> binds its arguments when it is
  called, as a \<^verbatim>\<open>def\<close> does.
\<close>

definition parameter_names :: "string list" where
  "parameter_names =
     [''self'', ''query'', ''response'', ''contexts'', ''image_paths'', ''image_urls'']"

definition call_evaluate ::
  "('t, 'n, 'w) MultiModalRelevancyEvaluator \<Rightarrow> ('t, 'd, 'n, 'w) collaborators \<Rightarrow>
   string option \<Rightarrow> string option \<Rightarrow> string list option \<Rightarrow>
   string list option \<Rightarrow> string list option \<Rightarrow> (string \<times> 'v) list \<Rightarrow>
   ('t, 'd, 'n, 'w) state \<Rightarrow> (error + EvaluationResult) \<times> ('t, 'd, 'n, 'w) state" where
  "call_evaluate self coll query_arg response_arg contexts image_paths image_urls kwargs s =
     (case find (\<lambda>name. name \<in> set parameter_names) (map fst kwargs) of
        Some name \<Rightarrow> (Inl (TypeError name), s)
      | None \<Rightarrow>
          evaluate self coll query_arg response_arg contexts image_paths image_urls kwargs s)"

definition call_aevaluate ::
  "('t, 'n, 'w) MultiModalRelevancyEvaluator \<Rightarrow> ('t, 'd, 'n, 'w) collaborators \<Rightarrow>
   string option \<Rightarrow> string option \<Rightarrow> string list option \<Rightarrow>
   string list option \<Rightarrow> string list option \<Rightarrow> (string \<times> 'v) list \<Rightarrow>
   ('t, 'd, 'n, 'w) state \<Rightarrow> (error + EvaluationResult) \<times> ('t, 'd, 'n, 'w) state" where
  "call_aevaluate self coll query_arg response_arg contexts image_paths image_urls kwargs s =
     (case find (\<lambda>name. name \<in> set parameter_names) (map fst kwargs) of
        Some name \<Rightarrow> (Inl (TypeError name), s)
      | None \<Rightarrow>
          aevaluate self coll query_arg response_arg contexts image_paths image_urls kwargs s)"

subsection \<open>The join in the words of the specification\<close>

text \<open>
  The snippets in the order given, with one blank line (two newline characters) between
  two consecutive snippets, and nothing before the first or after the last.
\<close>

fun blank_line_between :: "string list \<Rightarrow> string" where
  "blank_line_between [] = []"
| "blank_line_between [x] = x"
| "blank_line_between (x # y # ys) = x @ ''\<newline>\<newline>'' @ blank_line_between (y # ys)"

subsection \<open>Determinism of the collaborators\<close>

text \<open>
  A collaborator is deterministic when what it returns (or raises) depends on its
  arguments only, not on the world it is called in.
\<close>

definition deterministic_model :: "('n, 'w) MultiModalLLM \<Rightarrow> bool" where
  "deterministic_model llm \<longleftrightarrow>
     (\<forall>prompt nodes w w'. fst (complete llm prompt nodes w) = fst (complete llm prompt nodes w'))"

definition deterministic_ingestion :: "('t, 'd, 'n, 'w) collaborators \<Rightarrow> bool" where
  "deterministic_ingestion coll \<longleftrightarrow>
     (\<forall>path w w'. fst (load_data coll path w) = fst (load_data coll path w')) \<and>
     (\<forall>docs w w'. fst (get_nodes_from_documents coll docs w) =
                    fst (get_nodes_from_documents coll docs w'))"

subsection \<open>Stub collaborators\<close>

text \<open>
  Concrete collaborators to run the evaluator on. The world is a counter of the requests
  the model has served. \<open>fixed_llm\<close> answers every request with the same text. The
  plain collaborators write the template followed by the values of the keyword arguments,
  read one document per path (the path itself) and turn each document into one node.
\<close>

definition fixed_llm :: "string \<Rightarrow> (string, nat) MultiModalLLM" where
  "fixed_llm reply =
     \<lparr>complete = (\<lambda>prompt nodes w. (Inr reply, Suc w)),
      acomplete = (\<lambda>prompt nodes w. (Inr reply, Suc w))\<rparr>"

definition plain_collaborators :: "(string, string, string, nat) collaborators" where
  "plain_collaborators =
     \<lparr>format = (\<lambda>tmpl kwargs. Inr (tmpl @ concat (map snd kwargs))),
      load_data = (\<lambda>path w. (Inr [path], w)),
      get_nodes_from_documents = (\<lambda>docs w. (Inr docs, w))\<rparr>"

definition fixed_evaluator ::
  "bool \<Rightarrow> string \<Rightarrow> (string, string, nat) MultiModalRelevancyEvaluator" where
  "fixed_evaluator raise reply =
     \<lparr>multi_modal_llm = fixed_llm reply, raise_error = raise,
      eval_template = ''EVAL '', refine_template = ''REFINE ''\<rparr>"

definition state0 :: "(string, 'd, 'n, nat) state" where
  "state0 = \<lparr>world = 0, calls = []\<rparr>"

text \<open>
  A file that changes between two evaluations: the document read from a path carries the
  number of requests served so far. \<open>looking_llm\<close> looks at the image nodes and answers
  \<^verbatim>\<open>YES\<close> for the first version of \<^verbatim>\<open>cat.png\<close> only; its answer depends on its
  arguments alone.
\<close>

definition looking_llm :: "(string \<times> nat, nat) MultiModalLLM" where
  "looking_llm =
     \<lparr>complete = (\<lambda>prompt nodes w.
                    (Inr (if nodes = [(''cat.png'', 0)] then ''YES'' else ''NO''), Suc w)),
      acomplete = (\<lambda>prompt nodes w.
                    (Inr (if nodes = [(''cat.png'', 0)] then ''YES'' else ''NO''), Suc w))\<rparr>"

definition changing_file_collaborators ::
  "(string, string \<times> nat, string \<times> nat, nat) collaborators" where
  "changing_file_collaborators =
     \<lparr>format = (\<lambda>tmpl kwargs. Inr (tmpl @ concat (map snd kwargs))),
      load_data = (\<lambda>path w. (Inr [(path, w)], w)),
      get_nodes_from_documents = (\<lambda>docs w. (Inr docs, w))\<rparr>"

definition looking_evaluator ::
  "(string, string \<times> nat, nat) MultiModalRelevancyEvaluator" where
  "looking_evaluator =
     \<lparr>multi_modal_llm = looking_llm, raise_error = False,
      eval_template = ''EVAL '', refine_template = ''REFINE ''\<rparr>"

subsection \<open>Stages of the two methods\<close>

text \<open>
  Three pieces of \<^verbatim>\<open>evaluate\<close> and \<^verbatim>\<open>aevaluate\<close>, named so that lemmas can speak
  of them: the image branch (lines 118-125 and 170-177), the verdict with the result built
  from it (lines 134-147 and 186-199), and the same after a model call that may have
  raised. The lemmas \<open>evaluate_staged\<close> and \<open>aevaluate_staged\<close> below show that
  the two methods are made of these pieces.
\<close>

definition resolve_image_nodes ::
  "('t, 'd, 'n, 'w) collaborators \<Rightarrow> string list option \<Rightarrow>
   ('t, 'd, 'n, 'w) state \<Rightarrow> (error + 'n list option) \<times> ('t, 'd, 'n, 'w) state" where
  "resolve_image_nodes coll image_paths s1 =
     (case image_paths of
        Some (p # ps) \<Rightarrow>
          (case load_image_documents coll (p # ps) [] s1 of
             (Inl e, s2) \<Rightarrow> (Inl e, s2)
           | (Inr image_documents, s2) \<Rightarrow>
               (case call_get_nodes coll image_documents s2 of
                  (Inl e, s3) \<Rightarrow> (Inl e, s3)
                | (Inr nodes, s3) \<Rightarrow> (Inr (Some nodes), s3)))
      | _ \<Rightarrow> (Inr None, s1))"

definition verdict ::
  "bool \<Rightarrow> string \<Rightarrow> string \<Rightarrow> string \<Rightarrow> error + EvaluationResult" where
  "verdict raise query_str response_str raw_response_txt =
     (case (if sublist ''yes'' (lower raw_response_txt) then Inr True
            else if raise then Inl (ValueError ''The response is invalid'')
            else Inr False) of
        Inl e \<Rightarrow> Inl e
      | Inr passing_v \<Rightarrow>
          Inr \<lparr>query = query_str, response = response_str, passing = passing_v,
               score = (if passing_v then 1 else 0), feedback = raw_response_txt\<rparr>)"

definition after_model ::
  "bool \<Rightarrow> string \<Rightarrow> string \<Rightarrow> error + string \<Rightarrow> error + EvaluationResult" where
  "after_model raise query_str response_str reply =
     (case reply of Inl e \<Rightarrow> Inl e | Inr raw \<Rightarrow> verdict raise query_str response_str raw)"

text \<open>
  A call in which the model returned a text, and a run from \<open>s\<close> to \<open>s'\<close> in which
  the log only grew and the model returned no text.
\<close>

fun model_replied :: "('t, 'd, 'n) call \<Rightarrow> bool" where
  "model_replied (Complete p n (Inr raw)) = True"
| "model_replied (AComplete p n (Inr raw)) = True"
| "model_replied _ = False"

definition silent :: "('t, 'd, 'n, 'w) state \<Rightarrow> ('t, 'd, 'n, 'w) state \<Rightarrow> bool" where
  "silent s s' \<longleftrightarrow> (\<exists>new. calls s' = calls s @ new \<and> (\<forall>ev \<in> set new. \<not> model_replied ev))"

subsection \<open>Containing a word, whatever the case of the letters\<close>

text \<open>
  Some run of consecutive characters of the text spells the word when both are lowered.
\<close>

definition contains_ignoring_case :: "string \<Rightarrow> string \<Rightarrow> bool" where
  "contains_ignoring_case txt word \<longleftrightarrow>
     (\<exists>before run after. txt = before @ run @ after \<and> lower run = lower word)"

text \<open>
  The same for the word \<^verbatim>\<open>yes\<close>, spelt out letter by letter: three consecutive
  characters of the text are a \<^verbatim>\<open>y\<close>, an \<^verbatim>\<open>e\<close> and an \<^verbatim>\<open>s\<close>, each in either
  case. Nothing of \<open>lower\<close> is used.
\<close>

definition contains_yes_any_case :: "string \<Rightarrow> bool" where
  "contains_yes_any_case txt \<longleftrightarrow>
     (\<exists>before a b c after. txt = before @ [a, b, c] @ after
        \<and> (a = CHR ''y'' \<or> a = CHR ''Y'')
        \<and> (b = CHR ''e'' \<or> b = CHR ''E'')
        \<and> (c = CHR ''s'' \<or> c = CHR ''S''))"

text \<open>The asynchronous entry of a model answers as the synchronous one does.\<close>

definition same_replies :: "('n, 'w) MultiModalLLM \<Rightarrow> bool" where
  "same_replies llm \<longleftrightarrow>
     (\<forall>prompt nodes w. fst (acomplete llm prompt nodes w) = fst (complete llm prompt nodes w))"

subsection \<open>An example run\<close>

text \<open>
  The evaluation of the specification's example: the query \<^verbatim>\<open>Is this a cat?\<close>, the
  response \<^verbatim>\<open>Yes, it is a cat.\<close> and one context snippet, on the stub collaborators,
  with the image paths, the fixed reply of the model and the starting state left open.
  \<open>cat_prompt\<close> is the prompt the plain template makes of it, and
  \<open>cat_ingestion_calls\<close> are the calls made before the model is asked when the one
  image \<^verbatim>\<open>cat.png\<close> is given.
\<close>

definition cat_run ::
  "bool \<Rightarrow> string \<Rightarrow> string list option \<Rightarrow> (string, string, string, nat) state \<Rightarrow>
   (error + EvaluationResult) \<times> (string, string, string, nat) state" where
  "cat_run raise reply image_paths s =
     evaluate (fixed_evaluator raise reply) plain_collaborators
       (Some ''Is this a cat?'') (Some ''Yes, it is a cat.'') (Some [''An image of a cat.''])
       image_paths None ([] :: (string \<times> string) list) s"

definition cat_arun ::
  "bool \<Rightarrow> string \<Rightarrow> string list option \<Rightarrow> (string, string, string, nat) state \<Rightarrow>
   (error + EvaluationResult) \<times> (string, string, string, nat) state" where
  "cat_arun raise reply image_paths s =
     aevaluate (fixed_evaluator raise reply) plain_collaborators
       (Some ''Is this a cat?'') (Some ''Yes, it is a cat.'') (Some [''An image of a cat.''])
       image_paths None ([] :: (string \<times> string) list) s"

definition cat_prompt :: string where
  "cat_prompt =
     ''EVAL An image of a cat.Question: Is this a cat?\<newline>Response: Yes, it is a cat.''"

definition cat_format_call :: "(string, string, string) call" where
  "cat_format_call =
     Format ''EVAL ''
       [(''context_str'', ''An image of a cat.''),
        (''query_str'', ''Question: Is this a cat?\<newline>Response: Yes, it is a cat.'')]
       (Inr cat_prompt)"

definition cat_ingestion_calls :: "(string, string, string) call list" where
  "cat_ingestion_calls =
     [cat_format_call,
      LoadData ''cat.png'' (Inr [''cat.png'']),
      GetNodes [''cat.png''] (Inr [''cat.png''])]"

section \<open>Lemmas\<close>

lemmas run_defs =
  evaluate_def aevaluate_def call_format_def call_load_data_def call_get_nodes_def
  call_complete_def call_acomplete_def join_def lower_def lower_char_def Let_def
  sublist_Cons_right

lemmas stub_defs =
  fixed_evaluator_def fixed_llm_def plain_collaborators_def state0_def
  cat_run_def cat_arun_def cat_prompt_def cat_format_call_def cat_ingestion_calls_def

subsection \<open>What a run logs\<close>

lemma load_calls:
  "load_image_documents coll ps docs s = (r, s') \<Longrightarrow>
     \<exists>evs. calls s' = calls s @ evs \<and> (\<forall>ev \<in> set evs. \<exists>path out. ev = LoadData path out)"
proof (induction ps arbitrary: docs s)
  case Nil
  then show ?case by simp
next
  case (Cons p ps)
  show ?case
  proof (cases "load_data coll p (world s)")
    case (Pair out w')
    show ?thesis
    proof (cases out)
      case (Inl e)
      with Pair Cons.prems show ?thesis
        by (auto simp: call_load_data_def)
    next
      case (Inr ds)
      with Pair Cons.prems have
        "load_image_documents coll ps (docs @ ds) \<lparr>world = w', calls = calls s @ [LoadData p (Inr ds)]\<rparr> = (r, s')"
        by (simp add: call_load_data_def)
      from Cons.IH [OF this] show ?thesis by auto
    qed
  qed
qed

lemma silent_refl: "silent s s"
  by (simp add: silent_def)

lemma silent_format:
  "silent s \<lparr>world = w, calls = calls s @ [Format t kw fr]\<rparr>"
  by (simp add: silent_def)

lemma silent_load:
  assumes "load_image_documents coll ps docs \<lparr>world = w, calls = calls s @ [Format t kw fr]\<rparr> = (lr, s2)"
  shows "silent s s2"
proof -
  from load_calls [OF assms] obtain evs where
    "calls s2 = (calls s @ [Format t kw fr]) @ evs"
    "\<forall>ev \<in> set evs. \<exists>path out. ev = LoadData path out"
    by auto
  then show ?thesis
    unfolding silent_def by (intro exI [of _ "[Format t kw fr] @ evs"]) auto
qed

lemma silent_snoc:
  "silent s s2 \<Longrightarrow> \<not> model_replied ev \<Longrightarrow> silent s \<lparr>world = w, calls = calls s2 @ [ev]\<rparr>"
  unfolding silent_def by auto

lemma reply_snoc:
  "silent s s2 \<Longrightarrow> \<exists>pre. calls s2 @ [ev] = calls s @ pre @ [ev]"
  unfolding silent_def by auto

lemma resolve_calls:
  assumes "resolve_image_nodes coll paths s1 = (r, s3)"
  shows "\<exists>evs. calls s3 = calls s1 @ evs"
proof (cases "\<exists>p ps. paths = Some (p # ps)")
  case False
  with assms have "s3 = s1"
    by (auto simp: resolve_image_nodes_def split: option.splits list.splits)
  then show ?thesis by simp
next
  case True
  then obtain p ps where paths: "paths = Some (p # ps)" by auto
  obtain lr s2 where ld: "load_image_documents coll (p # ps) [] s1 = (lr, s2)"
    by (cases "load_image_documents coll (p # ps) [] s1")
  from load_calls [OF ld] obtain evs where evs: "calls s2 = calls s1 @ evs" by blast
  from assms paths ld have "s3 = s2 \<or> (\<exists>ev w. s3 = \<lparr>world = w, calls = calls s2 @ [ev]\<rparr>)"
    by (auto simp: resolve_image_nodes_def call_get_nodes_def
             simp del: load_image_documents.simps split: sum.splits prod.splits)
  with evs show ?thesis by auto
qed

lemma evaluate_staged_state:
  "snd (evaluate self coll (Some qs) (Some rs) (Some cs) paths urls kw s) =
     (case call_format coll (eval_template self)
             [(''context_str'', join ''\<newline>\<newline>'' cs),
              (''query_str'', ''Question: '' @ qs @ ''\<newline>Response: '' @ rs)] s of
        (Inl e, s1) \<Rightarrow> s1
      | (Inr fmt_prompt, s1) \<Rightarrow>
          (case resolve_image_nodes coll paths s1 of
             (Inl e, s3) \<Rightarrow> s3
           | (Inr None, s3) \<Rightarrow> s3
           | (Inr (Some image_nodes), s3) \<Rightarrow>
               snd (call_complete (multi_modal_llm self) fmt_prompt image_nodes s3)))"
  unfolding evaluate_def resolve_image_nodes_def Let_def
  by (simp split: prod.splits sum.splits option.splits list.splits del: load_image_documents.simps)

text \<open>
  A run of \<^verbatim>\<open>evaluate\<close> either ends with a text from the model, which decides the
  outcome, or raises without the model having returned any text.
\<close>

lemma evaluate_run:
  assumes run: "evaluate self coll q r c paths urls kw s = (out, s')"
  shows "(\<exists>qs rs pre p n raw. q = Some qs \<and> r = Some rs
            \<and> calls s' = calls s @ pre @ [Complete p n (Inr raw)]
            \<and> out = (if sublist ''yes'' (lower raw)
                     then Inr \<lparr>query = qs, response = rs, passing = True, score = 1, feedback = raw\<rparr>
                     else if raise_error self then Inl (ValueError ''The response is invalid'')
                     else Inr \<lparr>query = qs, response = rs, passing = False, score = 0, feedback = raw\<rparr>))
       \<or> ((\<exists>e. out = Inl e) \<and> silent s s')"
proof (cases "q = None \<or> r = None \<or> c = None")
  case True
  with run have "out = Inl (ValueError ''query, contexts, and response must be provided'')" "s' = s"
    by (auto simp: evaluate_def split: option.splits)
  then show ?thesis by (simp add: silent_refl)
next
  case False
  then obtain qs rs cs where args: "q = Some qs" "r = Some rs" "c = Some cs" by auto
  define kwargs where "kwargs = [(''context_str'', join ''\<newline>\<newline>'' cs),
     (''query_str'', ''Question: '' @ qs @ ''\<newline>Response: '' @ rs)]"
  define fr where "fr = format coll (eval_template self) kwargs"
  define s1 where "s1 = \<lparr>world = world s, calls = calls s @ [Format (eval_template self) kwargs fr]\<rparr>"
  have fmt: "call_format coll (eval_template self) kwargs s = (fr, s1)"
    by (simp add: call_format_def fr_def s1_def Let_def)
  note fmt' = fmt [unfolded kwargs_def, simplified]
  note unf = evaluate_def args Let_def fmt'
  show ?thesis
  proof (cases fr)
    case (Inl e)
    with run have "out = Inl e" "s' = s1" by (auto simp: unf)
    then show ?thesis by (simp add: s1_def silent_format)
  next
    case fp: (Inr fmt_prompt)
    show ?thesis
    proof (cases "\<exists>p ps. paths = Some (p # ps)")
      case False
      with run fp have "out = Inl (UnboundLocalError ''image_nodes'')" "s' = s1"
        by (auto simp: unf split: option.splits list.splits)
      then show ?thesis by (simp add: s1_def silent_format)
    next
      case True
      then obtain p ps where paths: "paths = Some (p # ps)" by auto
      obtain lr s2 where ld: "load_image_documents coll (p # ps) [] s1 = (lr, s2)"
        by (cases "load_image_documents coll (p # ps) [] s1")
      have sil2: "silent s s2"
        using ld unfolding s1_def by (rule silent_load)
      show ?thesis
      proof (cases lr)
        case (Inl e)
        with run have "out = Inl e" "s' = s2" by (auto simp: unf fp paths ld simp del: load_image_documents.simps)
        with sil2 show ?thesis by simp
      next
        case docs: (Inr image_documents)
        obtain gr w3 where gn: "get_nodes_from_documents coll image_documents (world s2) = (gr, w3)"
          by (cases "get_nodes_from_documents coll image_documents (world s2)")
        define s3 where "s3 = \<lparr>world = w3, calls = calls s2 @ [GetNodes image_documents gr]\<rparr>"
        have cg: "call_get_nodes coll image_documents s2 = (gr, s3)"
          by (simp add: call_get_nodes_def gn s3_def)
        have sil3: "silent s s3"
          unfolding s3_def using sil2 by (rule silent_snoc) simp
        show ?thesis
        proof (cases gr)
          case (Inl e)
          with run have "out = Inl e" "s' = s3" by (auto simp: unf fp paths ld docs cg simp del: load_image_documents.simps)
          with sil3 show ?thesis by simp
        next
          case nodes: (Inr image_nodes)
          obtain cr w4 where cm:
            "complete (multi_modal_llm self) fmt_prompt image_nodes (world s3) = (cr, w4)"
            by (cases "complete (multi_modal_llm self) fmt_prompt image_nodes (world s3)")
          define s4 where
            "s4 = \<lparr>world = w4, calls = calls s3 @ [Complete fmt_prompt image_nodes cr]\<rparr>"
          have cc: "call_complete (multi_modal_llm self) fmt_prompt image_nodes s3 = (cr, s4)"
            by (simp add: call_complete_def cm s4_def)
          note unf4 = unf fp paths ld docs cg nodes cc
          show ?thesis
          proof (cases cr)
            case (Inl e)
            with run have "out = Inl e" "s' = s4" by (auto simp: unf4 simp del: load_image_documents.simps)
            moreover have "silent s s4"
              unfolding s4_def using sil3 by (rule silent_snoc) (simp add: Inl)
            ultimately show ?thesis by simp
          next
            case raw: (Inr raw_response_txt)
            from reply_snoc [OF sil3, of "Complete fmt_prompt image_nodes (Inr raw_response_txt)"]
            obtain pre where
              "calls s4 = calls s @ pre @ [Complete fmt_prompt image_nodes (Inr raw_response_txt)]"
              by (auto simp: s4_def raw)
            moreover from run raw have "s' = s4"
              by (auto simp: unf4 simp del: load_image_documents.simps split: if_splits)
            moreover from run raw have
              "out = (if sublist ''yes'' (lower raw_response_txt)
                     then Inr \<lparr>query = qs, response = rs, passing = True, score = 1, feedback = raw_response_txt\<rparr>
                     else if raise_error self then Inl (ValueError ''The response is invalid'')
                     else Inr \<lparr>query = qs, response = rs, passing = False, score = 0, feedback = raw_response_txt\<rparr>)"
              by (auto simp: unf4 simp del: load_image_documents.simps split: if_splits)
            ultimately show ?thesis using args by blast
          qed
        qed
      qed
    qed
  qed
qed

subsection \<open>The two methods in stages\<close>

lemma evaluate_staged:
  "fst (evaluate self coll (Some qs) (Some rs) (Some cs) paths urls kw s) =
     (case call_format coll (eval_template self)
             [(''context_str'', join ''\<newline>\<newline>'' cs),
              (''query_str'', ''Question: '' @ qs @ ''\<newline>Response: '' @ rs)] s of
        (Inl e, s1) \<Rightarrow> Inl e
      | (Inr fmt_prompt, s1) \<Rightarrow>
          (case resolve_image_nodes coll paths s1 of
             (Inl e, s3) \<Rightarrow> Inl e
           | (Inr None, s3) \<Rightarrow> Inl (UnboundLocalError ''image_nodes'')
           | (Inr (Some image_nodes), s3) \<Rightarrow>
               after_model (raise_error self) qs rs
                 (fst (complete (multi_modal_llm self) fmt_prompt image_nodes (world s3)))))"
  unfolding evaluate_def resolve_image_nodes_def verdict_def after_model_def call_complete_def Let_def
  by (simp split: prod.splits sum.splits option.splits list.splits del: load_image_documents.simps)

lemma aevaluate_staged:
  "fst (aevaluate self coll (Some qs) (Some rs) (Some cs) paths urls kw s) =
     (case call_format coll (eval_template self)
             [(''context_str'', join ''\<newline>\<newline>'' cs),
              (''query_str'', ''Question: '' @ qs @ ''\<newline>Response: '' @ rs)] s of
        (Inl e, s1) \<Rightarrow> Inl e
      | (Inr fmt_prompt, s1) \<Rightarrow>
          (case resolve_image_nodes coll paths s1 of
             (Inl e, s3) \<Rightarrow> Inl e
           | (Inr None, s3) \<Rightarrow> Inl (UnboundLocalError ''image_nodes'')
           | (Inr (Some image_nodes), s3) \<Rightarrow>
               after_model (raise_error self) qs rs
                 (fst (acomplete (multi_modal_llm self) fmt_prompt image_nodes (world s3)))))"
  unfolding aevaluate_def resolve_image_nodes_def verdict_def after_model_def call_acomplete_def Let_def
  by (simp split: prod.splits sum.splits option.splits list.splits del: load_image_documents.simps)

lemma evaluate_missing:
  "q = None \<or> r = None \<or> c = None \<Longrightarrow>
   evaluate self coll q r c paths urls kw s =
     (Inl (ValueError ''query, contexts, and response must be provided''), s)"
  "q = None \<or> r = None \<or> c = None \<Longrightarrow>
   aevaluate self coll q r c paths urls kw s =
     (Inl (ValueError ''query, contexts, and response must be provided''), s)"
  by (auto simp: evaluate_def aevaluate_def split: option.splits)

lemma after_model_score:
  "after_model raise qs rs reply = Inr res \<Longrightarrow> score res = (if passing res then 1 else 0)"
  by (auto simp: after_model_def verdict_def split: sum.splits if_splits)

text \<open>Without image paths neither method ever returns a result.\<close>

lemma no_image_paths_never_returns:
  assumes "paths = None \<or> paths = Some []"
  shows "fst (evaluate self coll q r c paths urls kw s) \<noteq> Inr res"
    and "fst (aevaluate self coll q r c paths urls kw s) \<noteq> Inr res"
proof -
  have "fst (evaluate self coll q r c paths urls kw s) \<noteq> Inr res
      \<and> fst (aevaluate self coll q r c paths urls kw s) \<noteq> Inr res"
  proof (cases "q = None \<or> r = None \<or> c = None")
    case True
    then show ?thesis by (simp add: evaluate_missing)
  next
    case False
    then obtain qs rs cs where args: "q = Some qs" "r = Some rs" "c = Some cs" by auto
    from assms show ?thesis
      unfolding args evaluate_staged aevaluate_staged
      by (auto simp: resolve_image_nodes_def split: prod.splits sum.splits)
  qed
  then show "fst (evaluate self coll q r c paths urls kw s) \<noteq> Inr res"
    and "fst (aevaluate self coll q r c paths urls kw s) \<noteq> Inr res" by simp_all
qed

subsection \<open>Deterministic ingestion\<close>

lemma load_det:
  assumes "deterministic_ingestion coll"
  shows "fst (load_image_documents coll ps docs sa) = fst (load_image_documents coll ps docs sb)"
proof (induction ps arbitrary: docs sa sb)
  case Nil
  show ?case by simp
next
  case (Cons p ps)
  obtain ra wa where a: "load_data coll p (world sa) = (ra, wa)"
    by (cases "load_data coll p (world sa)")
  obtain rb wb where b: "load_data coll p (world sb) = (rb, wb)"
    by (cases "load_data coll p (world sb)")
  from assms have "fst (load_data coll p (world sa)) = fst (load_data coll p (world sb))"
    unfolding deterministic_ingestion_def by blast
  with a b have same: "ra = rb" by simp
  show ?case
  proof (cases rb)
    case (Inl e)
    with a b same show ?thesis by (simp add: call_load_data_def)
  next
    case (Inr ds)
    with a b same Cons.IH show ?thesis by (simp add: call_load_data_def)
  qed
qed

lemma resolve_det:
  assumes det: "deterministic_ingestion coll"
  shows "fst (resolve_image_nodes coll paths sa) = fst (resolve_image_nodes coll paths sb)"
proof (cases "\<exists>p ps. paths = Some (p # ps)")
  case False
  then show ?thesis
    by (auto simp: resolve_image_nodes_def split: option.splits list.splits)
next
  case True
  then obtain p ps where paths: "paths = Some (p # ps)" by auto
  obtain la sa2 where a: "load_image_documents coll (p # ps) [] sa = (la, sa2)"
    by (cases "load_image_documents coll (p # ps) [] sa")
  obtain lb sb2 where b: "load_image_documents coll (p # ps) [] sb = (lb, sb2)"
    by (cases "load_image_documents coll (p # ps) [] sb")
  from load_det [OF det, of "p # ps" "[]" sa sb] a b have same: "la = lb" by simp
  show ?thesis
  proof (cases lb)
    case (Inl e)
    with a b same paths show ?thesis
      by (simp add: resolve_image_nodes_def del: load_image_documents.simps)
  next
    case (Inr docs)
    from det have "fst (get_nodes_from_documents coll docs (world sa2)) =
                   fst (get_nodes_from_documents coll docs (world sb2))"
      unfolding deterministic_ingestion_def by blast
    with Inr a b same paths show ?thesis
      by (auto simp: resolve_image_nodes_def call_get_nodes_def
               simp del: load_image_documents.simps split: prod.splits sum.splits)
  qed
qed

subsection \<open>Strings\<close>

lemma sublist_map_iff:
  "sublist ys (map f xs) \<longleftrightarrow> (\<exists>ps u ss. xs = ps @ u @ ss \<and> map f u = ys)"
proof
  assume "sublist ys (map f xs)"
  then obtain ps' ss' where "map f xs = ps' @ ys @ ss'"
    unfolding sublist_def by blast
  then obtain ps rest where xs: "xs = ps @ rest" and rest: "map f rest = ys @ ss'"
    by (metis map_eq_append_conv)
  from rest obtain u ss where "rest = u @ ss" "map f u = ys"
    by (metis map_eq_append_conv)
  with xs show "\<exists>ps u ss. xs = ps @ u @ ss \<and> map f u = ys" by blast
next
  assume "\<exists>ps u ss. xs = ps @ u @ ss \<and> map f u = ys"
  then obtain ps u ss where "xs = ps @ u @ ss" "map f u = ys" by blast
  then have "map f xs = map f ps @ ys @ map f ss" by simp
  then show "sublist ys (map f xs)"
    unfolding sublist_def by blast
qed

lemma contains_ignoring_case_yes:
  "contains_ignoring_case txt ''yes'' \<longleftrightarrow> sublist ''yes'' (lower txt)"
proof -
  have low: "lower ''yes'' = ''yes''"
    by (simp add: lower_def lower_char_def)
  show ?thesis
    unfolding contains_ignoring_case_def low
    unfolding lower_def sublist_map_iff ..
qed

text \<open>
  The test of lines 134 and 186 finds \<^verbatim>\<open>yes\<close> in the lowered text exactly when the
  text has a \<^verbatim>\<open>y\<close>, an \<^verbatim>\<open>e\<close> and an \<^verbatim>\<open>s\<close> in a row, each in either case.
\<close>

lemma lower_char_y: "lower_char c = CHR ''y'' \<longleftrightarrow> c = CHR ''y'' \<or> c = CHR ''Y''"
  unfolding lower_char_def by (simp split: if_splits)

lemma lower_char_e: "lower_char c = CHR ''e'' \<longleftrightarrow> c = CHR ''e'' \<or> c = CHR ''E''"
  unfolding lower_char_def by (simp split: if_splits)

lemma lower_char_s: "lower_char c = CHR ''s'' \<longleftrightarrow> c = CHR ''s'' \<or> c = CHR ''S''"
  unfolding lower_char_def by (simp split: if_splits)

lemma lower_is_yes:
  "map lower_char u = ''yes'' \<longleftrightarrow>
     (\<exists>a b c. u = [a, b, c]
        \<and> (a = CHR ''y'' \<or> a = CHR ''Y'')
        \<and> (b = CHR ''e'' \<or> b = CHR ''E'')
        \<and> (c = CHR ''s'' \<or> c = CHR ''S''))"
proof -
  have "map lower_char u = ''yes'' \<longleftrightarrow>
     (\<exists>a b c. u = [a, b, c] \<and> lower_char a = CHR ''y'' \<and> lower_char b = CHR ''e''
        \<and> lower_char c = CHR ''s'')"
    by (auto simp: map_eq_Cons_conv)
  then show ?thesis
    by (simp only: lower_char_y lower_char_e lower_char_s)
qed

lemma yes_in_lower:
  "sublist ''yes'' (lower txt) \<longleftrightarrow> contains_yes_any_case txt"
proof -
  have "sublist ''yes'' (lower txt) \<longleftrightarrow>
          (\<exists>before u after. txt = before @ u @ after \<and> map lower_char u = ''yes'')"
    unfolding lower_def by (rule sublist_map_iff)
  also have "\<dots> \<longleftrightarrow> contains_yes_any_case txt"
    unfolding lower_is_yes contains_yes_any_case_def by blast
  finally show ?thesis .
qed

lemma contains_ignoring_case_yes_any_case:
  "contains_ignoring_case txt ''yes'' \<longleftrightarrow> contains_yes_any_case txt"
  by (simp only: contains_ignoring_case_yes yes_in_lower)

lemma silent_no_reply:
  assumes "silent s s'"
  shows "calls s' \<noteq> calls s @ pre @ [Complete p n (Inr raw)]"
proof
  assume eq: "calls s' = calls s @ pre @ [Complete p n (Inr raw)]"
  from assms obtain new where new: "calls s' = calls s @ new"
    and quiet: "\<forall>ev \<in> set new. \<not> model_replied ev"
    unfolding silent_def by blast
  from eq new have "new = pre @ [Complete p n (Inr raw)]" by simp
  with quiet show False by simp
qed

lemma join_blank_line: "join ''\<newline>\<newline>'' cs = blank_line_between cs"
  by (induction cs rule: blank_line_between.induct) (simp_all add: join_def)

subsection \<open>Keyword arguments\<close>

text \<open>The body of either method never reads \<^verbatim>\<open>kwargs\<close> (it is deleted on entry).\<close>

lemma body_ignores_kwargs:
  "evaluate self coll q r c paths urls kw s = evaluate self coll q r c paths urls [] s"
  "aevaluate self coll q r c paths urls kw s = aevaluate self coll q r c paths urls [] s"
  by (simp_all add: evaluate_def aevaluate_def)

lemma no_parameter_name_bound_twice:
  assumes "set (map fst kwargs) \<inter> set parameter_names = {}"
  shows "find (\<lambda>name. name \<in> set parameter_names) (map fst kwargs) = None"
  using assms unfolding find_None_iff by blast

subsection \<open>The prompt accessors\<close>

text \<open>
  Read back through \<^verbatim>\<open>_get_prompts\<close>, an update overrides the two known keys with
  what the mapping holds for them and ignores every other key.
\<close>

lemma get_prompts_update_prompts:
  "get_prompts (update_prompts self prompts) =
     get_prompts self ++ (prompts |` {''eval_template'', ''refine_template''})"
  by (rule ext)
     (simp add: get_prompts_def update_prompts_def Let_def map_add_def restrict_map_def
           split: option.splits)

section \<open>Properties\<close>

text \<open>
  C1. Whenever \<^verbatim>\<open>evaluate\<close> has asked the model and the model has returned the text
  \<open>raw\<close> (the last call logged), it returns a result with \<^verbatim>\<open>passing=True\<close> exactly
  when \<open>raw\<close> contains \<^verbatim>\<open>yes\<close> in some mix of upper and lower case, that is a
  \<^verbatim>\<open>y\<close> or \<^verbatim>\<open>Y\<close>, then an \<^verbatim>\<open>e\<close> or \<^verbatim>\<open>E\<close>, then an \<^verbatim>\<open>s\<close> or \<^verbatim>\<open>S\<close>,
  anywhere, also inside a longer word. Nothing else of the text is looked at: there is no
  test for \<^verbatim>\<open>no\<close>. The run below has \<^verbatim>\<open>YeS\<close> inside a word, after a \<^verbatim>\<open>No\<close>.
\<close>

theorem verdict_is_yes_substring:
  assumes run: "evaluate self coll q r c paths urls kw s = (out, s')"
      and reply: "calls s' = calls s @ pre @ [Complete prompt nodes (Inr raw)]"
  shows "(\<exists>res. out = Inr res \<and> passing res) \<longleftrightarrow> contains_yes_any_case raw"
proof -
  from evaluate_run [OF run] silent_no_reply [of s s' pre prompt nodes raw] reply
  obtain qs rs pre0 p0 n0 raw0 where
      c0: "calls s' = calls s @ pre0 @ [Complete p0 n0 (Inr raw0)]"
    and out: "out = (if sublist ''yes'' (lower raw0)
                     then Inr \<lparr>query = qs, response = rs, passing = True, score = 1, feedback = raw0\<rparr>
                     else if raise_error self then Inl (ValueError ''The response is invalid'')
                     else Inr \<lparr>query = qs, response = rs, passing = False, score = 0, feedback = raw0\<rparr>)"
    by blast
  from c0 reply have "raw0 = raw" by simp
  with out show ?thesis
    by (simp add: yes_in_lower)
qed

theorem verdict_is_yes_substring_witness:
  "cat_run False ''No, YeSterday.'' (Some [''cat.png'']) state0 =
     (Inr \<lparr>query = ''Is this a cat?'', response = ''Yes, it is a cat.'',
           passing = True, score = 1, feedback = ''No, YeSterday.''\<rparr>,
      \<lparr>world = Suc 0,
       calls = cat_ingestion_calls @ [Complete cat_prompt [''cat.png''] (Inr ''No, YeSterday.'')]\<rparr>)
   \<and> calls \<lparr>world = Suc 0,
             calls = cat_ingestion_calls @
                     [Complete cat_prompt [''cat.png''] (Inr ''No, YeSterday.'')]\<rparr> =
       calls (state0 :: (string, string, string, nat) state) @ cat_ingestion_calls @
       [Complete cat_prompt [''cat.png''] (Inr ''No, YeSterday.'')]
   \<and> contains_yes_any_case ''No, YeSterday.''"
proof -
  have run: "cat_run False ''No, YeSterday.'' (Some [''cat.png'']) state0 =
     (Inr \<lparr>query = ''Is this a cat?'', response = ''Yes, it is a cat.'',
           passing = True, score = 1, feedback = ''No, YeSterday.''\<rparr>,
      \<lparr>world = Suc 0,
       calls = cat_ingestion_calls @ [Complete cat_prompt [''cat.png''] (Inr ''No, YeSterday.'')]\<rparr>)"
    by (simp add: run_defs stub_defs)
  have reply: "calls \<lparr>world = Suc 0,
             calls = cat_ingestion_calls @
                     [Complete cat_prompt [''cat.png''] (Inr ''No, YeSterday.'')]\<rparr> =
       calls (state0 :: (string, string, string, nat) state) @ cat_ingestion_calls @
       [Complete cat_prompt [''cat.png''] (Inr ''No, YeSterday.'')]"
    by (simp add: state0_def)
  from verdict_is_yes_substring [OF run [unfolded cat_run_def] reply]
  have "contains_yes_any_case ''No, YeSterday.''" by simp
  with run reply show ?thesis by (intro conjI)
qed

text \<open>
  C2. In every result that \<^verbatim>\<open>evaluate\<close> or \<^verbatim>\<open>aevaluate\<close> returns, the score is 1
  when \<^verbatim>\<open>passing\<close> is true and 0 when it is false.
\<close>

theorem score_matches_passing:
  assumes "fst (evaluate self coll q r c paths urls kw s) = Inr res
         \<or> fst (aevaluate self coll q r c paths urls kw s) = Inr res"
  shows "score res = (if passing res then 1 else 0)"
proof (cases "q = None \<or> r = None \<or> c = None")
  case True
  with assms show ?thesis by (simp add: evaluate_missing)
next
  case False
  then obtain qs rs cs where args: "q = Some qs" "r = Some rs" "c = Some cs" by auto
  from assms have "\<exists>reply. after_model (raise_error self) qs rs reply = Inr res"
    unfolding args evaluate_staged aevaluate_staged
    by (auto split: prod.splits sum.splits option.splits)
  then show ?thesis by (auto dest: after_model_score)
qed

theorem score_matches_passing_witness:
  "(fst (cat_run False ''YES'' (Some [''cat.png'']) state0) =
      Inr \<lparr>query = ''Is this a cat?'', response = ''Yes, it is a cat.'',
            passing = True, score = 1, feedback = ''YES''\<rparr>
    \<or> fst (cat_arun False ''YES'' (Some [''cat.png'']) state0) =
      Inr \<lparr>query = ''Is this a cat?'', response = ''Yes, it is a cat.'',
            passing = True, score = 1, feedback = ''YES''\<rparr>)
   \<and> score \<lparr>query = ''Is this a cat?'', response = ''Yes, it is a cat.'',
            passing = True, score = 1, feedback = ''YES''\<rparr> =
       (if passing \<lparr>query = ''Is this a cat?'', response = ''Yes, it is a cat.'',
            passing = True, score = 1, feedback = ''YES''\<rparr> then 1 else 0)"
proof -
  have run: "fst (cat_run False ''YES'' (Some [''cat.png'']) state0) =
      Inr \<lparr>query = ''Is this a cat?'', response = ''Yes, it is a cat.'',
            passing = True, score = 1, feedback = ''YES''\<rparr>"
    by (simp add: run_defs stub_defs)
  then have either:
    "fst (evaluate (fixed_evaluator False ''YES'') plain_collaborators
            (Some ''Is this a cat?'') (Some ''Yes, it is a cat.'') (Some [''An image of a cat.''])
            (Some [''cat.png'']) None ([] :: (string \<times> string) list) state0) =
       Inr \<lparr>query = ''Is this a cat?'', response = ''Yes, it is a cat.'',
            passing = True, score = 1, feedback = ''YES''\<rparr>
     \<or> fst (aevaluate (fixed_evaluator False ''YES'') plain_collaborators
            (Some ''Is this a cat?'') (Some ''Yes, it is a cat.'') (Some [''An image of a cat.''])
            (Some [''cat.png'']) None ([] :: (string \<times> string) list) state0) =
       Inr \<lparr>query = ''Is this a cat?'', response = ''Yes, it is a cat.'',
            passing = True, score = 1, feedback = ''YES''\<rparr>"
    by (simp add: cat_run_def)
  from score_matches_passing [OF either] run show ?thesis
    by (intro conjI disjI1)
qed

text \<open>
  C3. With \<^verbatim>\<open>query\<close>, \<^verbatim>\<open>response\<close> and \<^verbatim>\<open>contexts\<close> given and the image paths
  empty or omitted, the specification has the model called with an empty collection of
  image nodes and a result returned. The code does not: the empty list of line 118 goes
  to \<^verbatim>\<open>image_documents\<close>, the call of line 127 reads \<^verbatim>\<open>image_nodes\<close>, which is
  unassigned on this path, and \<^verbatim>\<open>UnboundLocalError\<close> is raised after the template has
  been formatted and before the model is called. On the example of the specification,
  with a model that would answer \<^verbatim>\<open>YES\<close>, for the empty list and for \<^verbatim>\<open>None\<close>, and
  for both methods:
\<close>

theorem no_images_raises_unbound_local_error:
  "cat_run False ''YES'' (Some []) state0 =
     (Inl (UnboundLocalError ''image_nodes''), \<lparr>world = 0, calls = [cat_format_call]\<rparr>)
   \<and> cat_run False ''YES'' None state0 =
     (Inl (UnboundLocalError ''image_nodes''), \<lparr>world = 0, calls = [cat_format_call]\<rparr>)
   \<and> cat_arun False ''YES'' (Some []) state0 =
     (Inl (UnboundLocalError ''image_nodes''), \<lparr>world = 0, calls = [cat_format_call]\<rparr>)
   \<and> cat_arun False ''YES'' None state0 =
     (Inl (UnboundLocalError ''image_nodes''), \<lparr>world = 0, calls = [cat_format_call]\<rparr>)"
  by (simp add: run_defs stub_defs)

text \<open>
  C4. When \<^verbatim>\<open>query\<close>, \<^verbatim>\<open>response\<close> or \<^verbatim>\<open>contexts\<close> is \<^verbatim>\<open>None\<close>, both
  \<^verbatim>\<open>evaluate\<close> and \<^verbatim>\<open>aevaluate\<close> raise the \<^verbatim>\<open>ValueError\<close> of lines 110 and 162, and
  the state is the one they started from: no call was made to the template, the reader,
  the node parser or the model, and the world is unchanged.
\<close>

theorem missing_argument_raises_before_any_call:
  assumes "query_arg = None \<or> response_arg = None \<or> contexts = None"
  shows "evaluate self coll query_arg response_arg contexts image_paths image_urls kwargs s =
           (Inl (ValueError ''query, contexts, and response must be provided''), s)
       \<and> aevaluate self coll query_arg response_arg contexts image_paths image_urls kwargs s =
           (Inl (ValueError ''query, contexts, and response must be provided''), s)"
  using assms by (auto simp: evaluate_def aevaluate_def split: option.splits)

theorem missing_argument_raises_before_any_call_witness:
  "((None :: string option) = None \<or> Some ''Yes, it is a cat.'' = None
      \<or> Some [''An image of a cat.''] = None)
   \<and> evaluate (fixed_evaluator False ''YES'') plain_collaborators
         None (Some ''Yes, it is a cat.'') (Some [''An image of a cat.''])
         (Some [''cat.png'']) None ([] :: (string \<times> nat) list) state0 =
       (Inl (ValueError ''query, contexts, and response must be provided''), state0)
   \<and> aevaluate (fixed_evaluator False ''YES'') plain_collaborators
         None (Some ''Yes, it is a cat.'') (Some [''An image of a cat.''])
         (Some [''cat.png'']) None ([] :: (string \<times> nat) list) state0 =
       (Inl (ValueError ''query, contexts, and response must be provided''), state0)"
  using missing_argument_raises_before_any_call
    [of None "Some ''Yes, it is a cat.''" "Some [''An image of a cat.'']"
        "fixed_evaluator False ''YES''" plain_collaborators
        "Some [''cat.png'']" None "[] :: (string \<times> nat) list" state0]
  by simp

text \<open>
  C5. When the model has returned a text without \<^verbatim>\<open>yes\<close> in any case, \<^verbatim>\<open>evaluate\<close>
  raises the \<^verbatim>\<open>ValueError\<close> of line 138 and returns no result if \<^verbatim>\<open>raise_error\<close> is
  set, and otherwise returns the result with \<^verbatim>\<open>passing=False\<close>, score 0, the query and
  the response it was given, and the text of the model as feedback.
\<close>

theorem failing_verdict_raises_or_reports:
  assumes run: "evaluate self coll q r c paths urls kw s = (out, s')"
      and reply: "calls s' = calls s @ pre @ [Complete prompt nodes (Inr raw)]"
      and failing: "\<not> contains_ignoring_case raw ''yes''"
  shows "(raise_error self \<longrightarrow> out = Inl (ValueError ''The response is invalid''))
       \<and> (\<not> raise_error self \<longrightarrow>
            (\<exists>qs rs. q = Some qs \<and> r = Some rs \<and>
               out = Inr \<lparr>query = qs, response = rs, passing = False, score = 0, feedback = raw\<rparr>))"
proof -
  from evaluate_run [OF run] silent_no_reply [of s s' pre prompt nodes raw] reply
  obtain qs rs pre0 p0 n0 raw0 where
      args: "q = Some qs" "r = Some rs"
    and c0: "calls s' = calls s @ pre0 @ [Complete p0 n0 (Inr raw0)]"
    and out: "out = (if sublist ''yes'' (lower raw0)
                     then Inr \<lparr>query = qs, response = rs, passing = True, score = 1, feedback = raw0\<rparr>
                     else if raise_error self then Inl (ValueError ''The response is invalid'')
                     else Inr \<lparr>query = qs, response = rs, passing = False, score = 0, feedback = raw0\<rparr>)"
    by blast
  from c0 reply have "raw0 = raw" by simp
  with out failing args show ?thesis
    by (simp add: contains_ignoring_case_yes)
qed

theorem failing_verdict_raises_or_reports_witness:
  "calls (snd (cat_run True ''No, the response does not match.'' (Some [''cat.png'']) state0)) =
     calls (state0 :: (string, string, string, nat) state) @ cat_ingestion_calls @
     [Complete cat_prompt [''cat.png''] (Inr ''No, the response does not match.'')]
   \<and> calls (snd (cat_run False ''No, the response does not match.'' (Some [''cat.png'']) state0)) =
     calls (state0 :: (string, string, string, nat) state) @ cat_ingestion_calls @
     [Complete cat_prompt [''cat.png''] (Inr ''No, the response does not match.'')]
   \<and> \<not> contains_ignoring_case ''No, the response does not match.'' ''yes''
   \<and> fst (cat_run True ''No, the response does not match.'' (Some [''cat.png'']) state0) =
       Inl (ValueError ''The response is invalid'')
   \<and> fst (cat_run False ''No, the response does not match.'' (Some [''cat.png'']) state0) =
       Inr \<lparr>query = ''Is this a cat?'', response = ''Yes, it is a cat.'',
            passing = False, score = 0, feedback = ''No, the response does not match.''\<rparr>"
proof -
  have reply1:
    "calls (snd (cat_run True ''No, the response does not match.'' (Some [''cat.png'']) state0)) =
     calls (state0 :: (string, string, string, nat) state) @ cat_ingestion_calls @
     [Complete cat_prompt [''cat.png''] (Inr ''No, the response does not match.'')]"
    by (simp add: run_defs stub_defs)
  have reply2:
    "calls (snd (cat_run False ''No, the response does not match.'' (Some [''cat.png'']) state0)) =
     calls (state0 :: (string, string, string, nat) state) @ cat_ingestion_calls @
     [Complete cat_prompt [''cat.png''] (Inr ''No, the response does not match.'')]"
    by (simp add: run_defs stub_defs)
  have failing: "\<not> contains_ignoring_case ''No, the response does not match.'' ''yes''"
    by (simp add: contains_ignoring_case_yes lower_def lower_char_def sublist_Cons_right)
  have run1: "evaluate (fixed_evaluator True ''No, the response does not match.'')
       plain_collaborators
       (Some ''Is this a cat?'') (Some ''Yes, it is a cat.'') (Some [''An image of a cat.''])
       (Some [''cat.png'']) None ([] :: (string \<times> string) list) state0 =
     (fst (cat_run True ''No, the response does not match.'' (Some [''cat.png'']) state0),
      snd (cat_run True ''No, the response does not match.'' (Some [''cat.png'']) state0))"
    by (simp add: cat_run_def)
  have run2: "evaluate (fixed_evaluator False ''No, the response does not match.'')
       plain_collaborators
       (Some ''Is this a cat?'') (Some ''Yes, it is a cat.'') (Some [''An image of a cat.''])
       (Some [''cat.png'']) None ([] :: (string \<times> string) list) state0 =
     (fst (cat_run False ''No, the response does not match.'' (Some [''cat.png'']) state0),
      snd (cat_run False ''No, the response does not match.'' (Some [''cat.png'']) state0))"
    by (simp add: cat_run_def)
  from failing_verdict_raises_or_reports [OF run1 reply1 failing]
  have raised: "fst (cat_run True ''No, the response does not match.'' (Some [''cat.png'']) state0) =
       Inl (ValueError ''The response is invalid'')"
    by (simp add: fixed_evaluator_def)
  from failing_verdict_raises_or_reports [OF run2 reply2 failing]
  have reported:
    "fst (cat_run False ''No, the response does not match.'' (Some [''cat.png'']) state0) =
       Inr \<lparr>query = ''Is this a cat?'', response = ''Yes, it is a cat.'',
            passing = False, score = 0, feedback = ''No, the response does not match.''\<rparr>"
    by (simp add: fixed_evaluator_def)
  from reply1 reply2 failing raised reported show ?thesis by (intro conjI)
qed

text \<open>
  C6. The first thing \<^verbatim>\<open>evaluate\<close> does with its arguments is to format the evaluation
  template, and the \<^verbatim>\<open>context_str\<close> it passes is the snippets in the order given with
  one blank line (two newline characters) between consecutive snippets. The two snippets
  about Paris give the text of the specification's example.
\<close>

theorem context_block_is_blank_line_joined:
  "(\<exists>rest. calls (snd (evaluate self coll (Some qs) (Some rs) (Some cs) paths urls kw s)) =
      calls s @
      Format (eval_template self)
        [(''context_str'', blank_line_between cs),
         (''query_str'', ''Question: '' @ qs @ ''\<newline>Response: '' @ rs)]
        (format coll (eval_template self)
           [(''context_str'', blank_line_between cs),
            (''query_str'', ''Question: '' @ qs @ ''\<newline>Response: '' @ rs)]) # rest)
   \<and> join ''\<newline>\<newline>'' [''Paris is in France.'', ''The Eiffel Tower is in Paris.''] =
       ''Paris is in France.\<newline>\<newline>The Eiffel Tower is in Paris.''"
proof
  define kwargs where "kwargs = [(''context_str'', blank_line_between cs),
     (''query_str'', ''Question: '' @ qs @ ''\<newline>Response: '' @ rs)]"
  define fr where "fr = format coll (eval_template self) kwargs"
  define s1 where "s1 = \<lparr>world = world s, calls = calls s @ [Format (eval_template self) kwargs fr]\<rparr>"
  have fmt: "call_format coll (eval_template self) kwargs s = (fr, s1)"
    by (simp add: call_format_def fr_def s1_def Let_def)
  obtain r s3 where res: "resolve_image_nodes coll paths s1 = (r, s3)"
    by (cases "resolve_image_nodes coll paths s1")
  from resolve_calls [OF res] obtain evs where evs: "calls s3 = calls s1 @ evs" by blast
  have "\<exists>more. calls (snd (evaluate self coll (Some qs) (Some rs) (Some cs) paths urls kw s)) =
          calls s1 @ more"
    unfolding evaluate_staged_state join_blank_line kwargs_def [symmetric] fmt
    using evs
    by (auto simp: res call_complete_def split: sum.splits option.splits prod.splits)
  then show "\<exists>rest. calls (snd (evaluate self coll (Some qs) (Some rs) (Some cs) paths urls kw s)) =
      calls s @ Format (eval_template self) kwargs (format coll (eval_template self) kwargs) # rest"
    by (auto simp: s1_def fr_def)
next
  show "join ''\<newline>\<newline>'' [''Paris is in France.'', ''The Eiffel Tower is in Paris.''] =
       ''Paris is in France.\<newline>\<newline>The Eiffel Tower is in Paris.''"
    by (simp add: join_def)
qed

text \<open>
  C7. When the asynchronous entry of the model answers as the synchronous one does,
  \<^verbatim>\<open>aevaluate\<close> has the outcome of \<^verbatim>\<open>evaluate\<close> on the same arguments from the same
  state: the same result, or the same error.
\<close>

theorem aevaluate_same_outcome:
  assumes "same_replies (multi_modal_llm self)"
  shows "fst (aevaluate self coll q r c paths urls kw s) =
         fst (evaluate self coll q r c paths urls kw s)"
proof (cases "q = None \<or> r = None \<or> c = None")
  case True
  then show ?thesis by (simp add: evaluate_missing)
next
  case False
  then obtain qs rs cs where "q = Some qs" "r = Some rs" "c = Some cs" by auto
  moreover from assms have
    "fst (acomplete (multi_modal_llm self) prompt nodes w) =
     fst (complete (multi_modal_llm self) prompt nodes w)" for prompt nodes w
    unfolding same_replies_def by blast
  ultimately show ?thesis
    by (simp only: evaluate_staged aevaluate_staged)
qed

theorem aevaluate_same_outcome_witness:
  "same_replies (multi_modal_llm (fixed_evaluator False ''YES''))
   \<and> fst (cat_arun False ''YES'' (Some [''cat.png'']) state0) =
       fst (cat_run False ''YES'' (Some [''cat.png'']) state0)
   \<and> fst (cat_arun False ''YES'' (Some [''cat.png'']) state0) =
       Inr \<lparr>query = ''Is this a cat?'', response = ''Yes, it is a cat.'',
            passing = True, score = 1, feedback = ''YES''\<rparr>"
proof -
  have same: "same_replies (multi_modal_llm (fixed_evaluator False ''YES''))"
    by (simp add: same_replies_def fixed_evaluator_def fixed_llm_def)
  have run: "fst (cat_arun False ''YES'' (Some [''cat.png'']) state0) =
       Inr \<lparr>query = ''Is this a cat?'', response = ''Yes, it is a cat.'',
            passing = True, score = 1, feedback = ''YES''\<rparr>"
    by (simp add: run_defs stub_defs)
  from aevaluate_same_outcome [OF same, of plain_collaborators
         "Some ''Is this a cat?''" "Some ''Yes, it is a cat.''" "Some [''An image of a cat.'']"
         "Some [''cat.png'']" None "[] :: (string \<times> string) list" state0]
  have "fst (cat_arun False ''YES'' (Some [''cat.png'']) state0) =
        fst (cat_run False ''YES'' (Some [''cat.png'']) state0)"
    by (simp add: cat_run_def cat_arun_def)
  with same run show ?thesis by (intro conjI)
qed

text \<open>
  C8, as stated, fails: a deterministic model is not enough for two calls of
  \<^verbatim>\<open>evaluate\<close> with the same arguments to give the same result. The images are read
  again on every call (lines 120-125), so a file that changed between the calls reaches
  the model as different image nodes. Here the model answers from its arguments alone, the
  first call passes and the second, from the state the first one left, fails.
\<close>

theorem evaluate_deterministic_counterexample:
  "deterministic_model (multi_modal_llm looking_evaluator)
   \<and> fst (evaluate looking_evaluator changing_file_collaborators
            (Some ''Is this a cat?'') (Some ''Yes, it is a cat.'') (Some [''An image of a cat.''])
            (Some [''cat.png'']) None ([] :: (string \<times> nat) list) state0) =
       Inr \<lparr>query = ''Is this a cat?'', response = ''Yes, it is a cat.'',
            passing = True, score = 1, feedback = ''YES''\<rparr>
   \<and> fst (evaluate looking_evaluator changing_file_collaborators
            (Some ''Is this a cat?'') (Some ''Yes, it is a cat.'') (Some [''An image of a cat.''])
            (Some [''cat.png'']) None ([] :: (string \<times> nat) list)
            (snd (evaluate looking_evaluator changing_file_collaborators
               (Some ''Is this a cat?'') (Some ''Yes, it is a cat.'') (Some [''An image of a cat.''])
               (Some [''cat.png'']) None ([] :: (string \<times> nat) list) state0))) =
       Inr \<lparr>query = ''Is this a cat?'', response = ''Yes, it is a cat.'',
            passing = False, score = 0, feedback = ''NO''\<rparr>"
  by (simp add: deterministic_model_def looking_evaluator_def looking_llm_def
       changing_file_collaborators_def state0_def evaluate_def call_format_def
       call_load_data_def call_get_nodes_def call_complete_def Let_def join_def
       lower_def lower_char_def sublist_Cons_right)

text \<open>
  C8, amended. When the model and the image ingestion (the reader and the node parser)
  are all deterministic, the outcome of \<^verbatim>\<open>evaluate\<close>, a result or an error, is the same
  from any two states of the world; so it is for a second call made after a first.
\<close>

theorem evaluate_deterministic:
  assumes model: "deterministic_model (multi_modal_llm self)"
      and ingestion: "deterministic_ingestion coll"
  shows "fst (evaluate self coll q r c paths urls kw s2) =
         fst (evaluate self coll q r c paths urls kw s1)"
proof (cases "q = None \<or> r = None \<or> c = None")
  case True
  then show ?thesis by (simp add: evaluate_missing)
next
  case False
  then obtain qs rs cs where args: "q = Some qs" "r = Some rs" "c = Some cs" by auto
  define kwargs where "kwargs = [(''context_str'', join ''\<newline>\<newline>'' cs),
     (''query_str'', ''Question: '' @ qs @ ''\<newline>Response: '' @ rs)]"
  define fr where "fr = format coll (eval_template self) kwargs"
  define t1 where "t1 = snd (call_format coll (eval_template self) kwargs s1)"
  define t2 where "t2 = snd (call_format coll (eval_template self) kwargs s2)"
  have f1: "call_format coll (eval_template self) kwargs s1 = (fr, t1)"
    and f2: "call_format coll (eval_template self) kwargs s2 = (fr, t2)"
    by (simp_all add: call_format_def Let_def fr_def t1_def t2_def)
  obtain n1 u1 where r1: "resolve_image_nodes coll paths t1 = (n1, u1)"
    by (cases "resolve_image_nodes coll paths t1")
  obtain n2 u2 where r2: "resolve_image_nodes coll paths t2 = (n2, u2)"
    by (cases "resolve_image_nodes coll paths t2")
  from resolve_det [OF ingestion, of paths t1 t2] r1 r2 have same: "n1 = n2" by simp
  have reply: "fst (complete (multi_modal_llm self) p n (world u2)) =
               fst (complete (multi_modal_llm self) p n (world u1))" for p n
    using model unfolding deterministic_model_def by blast
  show ?thesis
    unfolding args evaluate_staged kwargs_def [symmetric] f1 f2
    by (simp add: r1 r2 same reply split: sum.splits option.splits)
qed

theorem evaluate_deterministic_witness:
  "deterministic_model (multi_modal_llm (fixed_evaluator False ''YES''))
   \<and> deterministic_ingestion plain_collaborators
   \<and> fst (cat_run False ''YES'' (Some [''cat.png''])
            (snd (cat_run False ''YES'' (Some [''cat.png'']) state0))) =
       fst (cat_run False ''YES'' (Some [''cat.png'']) state0)
   \<and> world (snd (cat_run False ''YES'' (Some [''cat.png'']) state0)) \<noteq> world (state0 :: (string, string, string, nat) state)"
proof -
  have model: "deterministic_model (multi_modal_llm (fixed_evaluator False ''YES''))"
    by (simp add: deterministic_model_def fixed_evaluator_def fixed_llm_def)
  have ingestion: "deterministic_ingestion plain_collaborators"
    by (simp add: deterministic_ingestion_def plain_collaborators_def)
  have moved: "world (snd (cat_run False ''YES'' (Some [''cat.png'']) state0)) \<noteq>
               world (state0 :: (string, string, string, nat) state)"
    by (simp add: run_defs stub_defs)
  from evaluate_deterministic [OF model ingestion, of
         "Some ''Is this a cat?''" "Some ''Yes, it is a cat.''" "Some [''An image of a cat.'']"
         "Some [''cat.png'']" None "[] :: (string \<times> string) list"
         "snd (cat_run False ''YES'' (Some [''cat.png'']) state0)" state0]
  have "fst (cat_run False ''YES'' (Some [''cat.png''])
            (snd (cat_run False ''YES'' (Some [''cat.png'']) state0))) =
       fst (cat_run False ''YES'' (Some [''cat.png'']) state0)"
    by (simp add: cat_run_def)
  with model ingestion moved show ?thesis by (intro conjI)
qed

text \<open>
  C9. \<^verbatim>\<open>_update_prompts\<close> replaces a template only when its key is in the mapping it is
  given: without the key \<^verbatim>\<open>eval_template\<close> the evaluation template stays, without the
  key \<^verbatim>\<open>refine_template\<close> the refinement template stays, a key that is present brings
  its template in, and the model and \<^verbatim>\<open>raise_error\<close> are never touched.
\<close>

theorem update_prompts_frame:
  "(prompts ''eval_template'' = None \<longrightarrow>
      eval_template (update_prompts self prompts) = eval_template self)
   \<and> (prompts ''refine_template'' = None \<longrightarrow>
      refine_template (update_prompts self prompts) = refine_template self)
   \<and> (\<forall>t. prompts ''eval_template'' = Some t \<longrightarrow>
      eval_template (update_prompts self prompts) = t)
   \<and> (\<forall>t. prompts ''refine_template'' = Some t \<longrightarrow>
      refine_template (update_prompts self prompts) = t)
   \<and> multi_modal_llm (update_prompts self prompts) = multi_modal_llm self
   \<and> raise_error (update_prompts self prompts) = raise_error self"
  by (simp add: update_prompts_def Let_def split: option.splits)

theorem update_prompts_frame_witness:
  "[''eval_template'' \<mapsto> ''NEW ''] ''refine_template'' = None
   \<and> [''eval_template'' \<mapsto> ''NEW ''] ''eval_template'' = Some ''NEW ''
   \<and> refine_template (update_prompts (fixed_evaluator False ''YES'')
        [''eval_template'' \<mapsto> ''NEW '']) = ''REFINE ''
   \<and> eval_template (update_prompts (fixed_evaluator False ''YES'')
        [''eval_template'' \<mapsto> ''NEW '']) = ''NEW ''
   \<and> [''refine_template'' \<mapsto> ''NEW ''] ''eval_template'' = None
   \<and> [''refine_template'' \<mapsto> ''NEW ''] ''refine_template'' = Some ''NEW ''
   \<and> eval_template (update_prompts (fixed_evaluator False ''YES'')
        [''refine_template'' \<mapsto> ''NEW '']) = ''EVAL ''
   \<and> refine_template (update_prompts (fixed_evaluator False ''YES'')
        [''refine_template'' \<mapsto> ''NEW '']) = ''NEW ''
   \<and> eval_template (update_prompts (fixed_evaluator False ''YES'') Map.empty) = ''EVAL ''
   \<and> refine_template (update_prompts (fixed_evaluator False ''YES'') Map.empty) = ''REFINE ''"
  using update_prompts_frame
          [of "[''eval_template'' \<mapsto> ''NEW '']" "fixed_evaluator False ''YES''"]
        update_prompts_frame
          [of "[''refine_template'' \<mapsto> ''NEW '']" "fixed_evaluator False ''YES''"]
        update_prompts_frame
          [of "Map.empty :: string \<rightharpoonup> string" "fixed_evaluator False ''YES''"]
  by (simp add: fixed_evaluator_def)

text \<open>
  C10, as stated, fails: not every keyword beyond \<^verbatim>\<open>query\<close>, \<^verbatim>\<open>response\<close>,
  \<^verbatim>\<open>contexts\<close>, \<^verbatim>\<open>image_paths\<close> and \<^verbatim>\<open>image_urls\<close> is accepted. The keyword
  \<^verbatim>\<open>self\<close> is none of the five, and the call that passes it raises \<^verbatim>\<open>TypeError\<close>
  with nothing done, where the call without it returns a result.
\<close>

theorem keyword_self_rejected_counterexample:
  "call_evaluate (fixed_evaluator False ''YES'') plain_collaborators
     (Some ''Is this a cat?'') (Some ''Yes, it is a cat.'') (Some [''An image of a cat.''])
     (Some [''cat.png'']) None [(''self'', ''x'')] state0 =
     (Inl (TypeError ''self''), state0)
   \<and> fst (call_evaluate (fixed_evaluator False ''YES'') plain_collaborators
     (Some ''Is this a cat?'') (Some ''Yes, it is a cat.'') (Some [''An image of a cat.''])
     (Some [''cat.png'']) None ([] :: (string \<times> string) list) state0) =
     Inr \<lparr>query = ''Is this a cat?'', response = ''Yes, it is a cat.'',
          passing = True, score = 1, feedback = ''YES''\<rparr>"
  by (simp add: call_evaluate_def parameter_names_def run_defs fixed_evaluator_def
        fixed_llm_def plain_collaborators_def state0_def)

text \<open>
  C10, amended. Extra keyword arguments named neither \<^verbatim>\<open>self\<close> nor as one of the five
  parameters change nothing: with them a call of \<^verbatim>\<open>evaluate\<close> or \<^verbatim>\<open>aevaluate\<close>
  returns or raises what it does with none, and leaves the same state.
\<close>

theorem extra_kwargs_discarded:
  assumes "set (map fst kwargs) \<inter> set parameter_names = {}"
  shows "call_evaluate self coll q r c paths urls kwargs s =
           call_evaluate self coll q r c paths urls [] s
       \<and> call_aevaluate self coll q r c paths urls kwargs s =
           call_aevaluate self coll q r c paths urls [] s"
proof -
  from assms have none: "find (\<lambda>name. name \<in> set parameter_names) (map fst kwargs) = None"
    by (rule no_parameter_name_bound_twice)
  have "evaluate self coll q r c paths urls kwargs s = evaluate self coll q r c paths urls [] s"
    and "aevaluate self coll q r c paths urls kwargs s = aevaluate self coll q r c paths urls [] s"
    by (rule body_ignores_kwargs)+
  then show ?thesis
    by (simp add: call_evaluate_def call_aevaluate_def none)
qed

theorem extra_kwargs_discarded_witness:
  "set (map fst [(''sleep_time_in_seconds'', ''0'')]) \<inter> set parameter_names = {}
   \<and> call_evaluate (fixed_evaluator False ''YES'') plain_collaborators
        (Some ''Is this a cat?'') (Some ''Yes, it is a cat.'') (Some [''An image of a cat.''])
        (Some [''cat.png'']) None [(''sleep_time_in_seconds'', ''0'')] state0 =
      call_evaluate (fixed_evaluator False ''YES'') plain_collaborators
        (Some ''Is this a cat?'') (Some ''Yes, it is a cat.'') (Some [''An image of a cat.''])
        (Some [''cat.png'']) None ([] :: (string \<times> string) list) state0
   \<and> call_aevaluate (fixed_evaluator False ''YES'') plain_collaborators
        (Some ''Is this a cat?'') (Some ''Yes, it is a cat.'') (Some [''An image of a cat.''])
        (Some [''cat.png'']) None [(''sleep_time_in_seconds'', ''0'')] state0 =
      call_aevaluate (fixed_evaluator False ''YES'') plain_collaborators
        (Some ''Is this a cat?'') (Some ''Yes, it is a cat.'') (Some [''An image of a cat.''])
        (Some [''cat.png'']) None ([] :: (string \<times> string) list) state0
   \<and> fst (call_evaluate (fixed_evaluator False ''YES'') plain_collaborators
        (Some ''Is this a cat?'') (Some ''Yes, it is a cat.'') (Some [''An image of a cat.''])
        (Some [''cat.png'']) None [(''sleep_time_in_seconds'', ''0'')] state0) =
      Inr \<lparr>query = ''Is this a cat?'', response = ''Yes, it is a cat.'',
           passing = True, score = 1, feedback = ''YES''\<rparr>"
proof -
  have extra: "set (map fst [(''sleep_time_in_seconds'', ''0'')]) \<inter> set parameter_names = {}"
    by (simp add: parameter_names_def)
  have run: "fst (call_evaluate (fixed_evaluator False ''YES'') plain_collaborators
        (Some ''Is this a cat?'') (Some ''Yes, it is a cat.'') (Some [''An image of a cat.''])
        (Some [''cat.png'']) None [(''sleep_time_in_seconds'', ''0'')] state0) =
      Inr \<lparr>query = ''Is this a cat?'', response = ''Yes, it is a cat.'',
           passing = True, score = 1, feedback = ''YES''\<rparr>"
    by (simp add: call_evaluate_def parameter_names_def run_defs fixed_evaluator_def
          fixed_llm_def plain_collaborators_def state0_def)
  note same = extra_kwargs_discarded [OF extra, of "fixed_evaluator False ''YES''"
      plain_collaborators "Some ''Is this a cat?''" "Some ''Yes, it is a cat.''"
      "Some [''An image of a cat.'']" "Some [''cat.png'']" None state0]
  from same extra run show ?thesis
    by blast
qed

end
